theory Spec2Isabelle
  imports Main "HOL-Library.Log_Nat"
begin

section \<open>Python values, errors and the process-wide counters\<close>

text \<open>
  The gate library is Python: every operator can raise, and \<open>Wire.__mul__\<close> and
  \<open>Wire.invert\<close> bump the class attributes \<open>Wire.n_mul\<close> and \<open>Wire.n_wires\<close>.
  A computation is therefore a function from the counters to a result (an error or a
  value) and the counters after it; the counters survive a raised exception, as the
  class attributes do.  \<open>Unmodelled\<close> marks the few places where the program leaves
  the fragment embedded here (float division of two plain integers).
\<close>

datatype error = ValueError | ZeroDivisionError | TypeError | AttributeError | KeyError
  | IndexError | Unmodelled

record counters =
  n_mul :: int
  n_wires :: int

type_synonym 'a gate = "counters \<Rightarrow> (error + 'a) \<times> counters"

definition ret :: "'a \<Rightarrow> 'a gate" where
  "ret v = (\<lambda>s. (Inr v, s))"

definition raise :: "error \<Rightarrow> 'a gate" where
  "raise e = (\<lambda>s. (Inl e, s))"

definition bind :: "'a gate \<Rightarrow> ('a \<Rightarrow> 'b gate) \<Rightarrow> 'b gate" where
  "bind m f = (\<lambda>s. case m s of (Inl e, s') \<Rightarrow> (Inl e, s') | (Inr v, s') \<Rightarrow> f v s')"

text \<open>\<open>Wire.n_mul += 1; Wire.n_wires += 1\<close>\<close>

definition count_constraint :: "unit gate" where
  "count_constraint = (\<lambda>s. (Inr (), s\<lparr>n_mul := n_mul s + 1, n_wires := n_wires s + 1\<rparr>))"

section \<open>Wires (src/groups/wiregroup.py)\<close>

record Wire =
  val :: int
  modulus :: int
  is_const :: bool

text \<open>
  The operands of the arithmetic are dynamically typed: a \<open>Wire\<close>, a plain Python
  integer, or \<open>None\<close> (the unset y coordinate of a ladder point).
\<close>

datatype pyval = W Wire | I int | NoneVal

definition Wire_create :: "int \<Rightarrow> int \<Rightarrow> bool \<Rightarrow> Wire" where
  "Wire_create v m c = \<lparr>val = v, modulus = m, is_const = c\<rparr>"

text \<open>\<open>int(other)\<close>: \<open>Wire.__int__\<close> returns the stored value, \<open>int(None)\<close> raises.\<close>

definition int_of :: "pyval \<Rightarrow> int gate" where
  "int_of a = (case a of W w \<Rightarrow> ret (val w) | I n \<Rightarrow> ret n | NoneVal \<Rightarrow> raise TypeError)"

text \<open>\<open>a % m\<close> on integers: floor modulo, \<open>ZeroDivisionError\<close> when \<open>m = 0\<close>.\<close>

definition py_mod :: "int \<Rightarrow> int \<Rightarrow> int gate" where
  "py_mod a m = (if m = 0 then raise ZeroDivisionError else ret (a mod m))"

text \<open>\<open>isinstance(other, Wire) and not other.is_const\<close>\<close>

definition nonconst_wire :: "pyval \<Rightarrow> bool" where
  "nonconst_wire a = (case a of W w \<Rightarrow> \<not> is_const w | _ \<Rightarrow> False)"

definition Wire_neg :: "Wire \<Rightarrow> Wire" where
  "Wire_neg self = Wire_create (modulus self - val self) (modulus self) (is_const self)"

definition Wire_add :: "Wire \<Rightarrow> pyval \<Rightarrow> pyval gate" where
  "Wire_add self other =
     (let is_c = (if nonconst_wire other then False else is_const self) in
      bind (int_of other) (\<lambda>other_val.
      bind (py_mod (val self + other_val) (modulus self)) (\<lambda>s.
      ret (W (Wire_create s (modulus self) is_c)))))"

definition Wire_radd :: "Wire \<Rightarrow> pyval \<Rightarrow> pyval gate" where
  "Wire_radd self other = Wire_add self other"

definition Wire_mul :: "Wire \<Rightarrow> pyval \<Rightarrow> pyval gate" where
  "Wire_mul self other =
     bind (if nonconst_wire other then count_constraint else ret ()) (\<lambda>_.
     (let is_c = (if nonconst_wire other then False else is_const self) in
      bind (int_of other) (\<lambda>other_val.
      bind (py_mod (val self * other_val) (modulus self)) (\<lambda>s.
      ret (W (Wire_create s (modulus self) is_c))))))"

definition Wire_rmul :: "Wire \<Rightarrow> pyval \<Rightarrow> pyval gate" where
  "Wire_rmul self other = Wire_mul self other"

text \<open>
  The binary operators as Python dispatches them: the left operand's method when it
  is a \<open>Wire\<close>, the right operand's reflected method when the left operand is an
  integer or \<open>None\<close>.
\<close>

definition py_add :: "pyval \<Rightarrow> pyval \<Rightarrow> pyval gate" where
  "py_add a b = (case a of W x \<Rightarrow> Wire_add x b
     | _ \<Rightarrow> (case b of W y \<Rightarrow> Wire_radd y a
        | _ \<Rightarrow> (case (a, b) of (I m, I n) \<Rightarrow> ret (I (m + n)) | _ \<Rightarrow> raise TypeError)))"

definition py_mul :: "pyval \<Rightarrow> pyval \<Rightarrow> pyval gate" where
  "py_mul a b = (case a of W x \<Rightarrow> Wire_mul x b
     | _ \<Rightarrow> (case b of W y \<Rightarrow> Wire_rmul y a
        | _ \<Rightarrow> (case (a, b) of (I m, I n) \<Rightarrow> ret (I (m * n)) | _ \<Rightarrow> raise TypeError)))"

text \<open>\<open>other.__neg__()\<close>\<close>

definition py_neg :: "pyval \<Rightarrow> pyval gate" where
  "py_neg a = (case a of W w \<Rightarrow> ret (W (Wire_neg w)) | I n \<Rightarrow> ret (I (- n))
     | NoneVal \<Rightarrow> raise AttributeError)"

definition Wire_sub :: "Wire \<Rightarrow> pyval \<Rightarrow> pyval gate" where
  "Wire_sub self other = bind (py_neg other) (\<lambda>n. Wire_add self n)"

definition Wire_rsub :: "Wire \<Rightarrow> pyval \<Rightarrow> pyval gate" where
  "Wire_rsub self other = py_add other (W (Wire_neg self))"

definition py_sub :: "pyval \<Rightarrow> pyval \<Rightarrow> pyval gate" where
  "py_sub a b = (case a of W x \<Rightarrow> Wire_sub x b
     | _ \<Rightarrow> (case b of W y \<Rightarrow> Wire_rsub y a
        | _ \<Rightarrow> (case (a, b) of (I m, I n) \<Rightarrow> ret (I (m - n)) | _ \<Rightarrow> raise TypeError)))"

text \<open>
  \<open>pow(b, -1, m)\<close>: the inverse of \<open>b\<close> modulo \<open>m\<close> in the range of \<open>% m\<close>, by the
  extended Euclidean algorithm; \<open>ValueError\<close> when \<open>m = 0\<close> or \<open>b\<close> is not invertible.
\<close>

function egcd :: "int \<Rightarrow> int \<Rightarrow> int \<times> int \<times> int" where
  "egcd a b = (if b = 0 then (a, 1, 0)
     else (case egcd b (a mod b) of (g, u, v) \<Rightarrow> (g, v, u - (a div b) * v)))"
  by pat_completeness auto
termination
  by (relation "measure (\<lambda>(a, b). nat \<bar>b\<bar>)") (auto simp: abs_mod_less)

declare egcd.simps [simp del]

definition pow_inv :: "int \<Rightarrow> int \<Rightarrow> int gate" where
  "pow_inv b m =
     (if m = 0 then raise ValueError
      else (case egcd (b mod m) m of (g, u, v) \<Rightarrow>
        if \<bar>g\<bar> = 1 then ret ((u * g) mod m) else raise ValueError))"

definition Wire_invert :: "Wire \<Rightarrow> Wire gate" where
  "Wire_invert self =
     bind (if \<not> is_const self then count_constraint else ret ()) (\<lambda>_.
     bind (pow_inv (val self) (modulus self)) (\<lambda>inv_val.
     ret (Wire_create inv_val (modulus self) (is_const self))))"

text \<open>
  \<open>Wire.__truediv__\<close>: \<open>other.invert()\<close>, and on the \<open>AttributeError\<close> of an
  operand without that method \<open>pow(int(other), -1, self.modulus)\<close>.
\<close>

definition Wire_truediv :: "Wire \<Rightarrow> pyval \<Rightarrow> pyval gate" where
  "Wire_truediv self other = (case other of
       W w \<Rightarrow> bind (Wire_invert w) (\<lambda>other_inv. Wire_mul self (W other_inv))
     | _ \<Rightarrow> bind (int_of other) (\<lambda>n. bind (pow_inv n (modulus self)) (\<lambda>other_inv.
              Wire_mul self (I other_inv))))"

definition Wire_rtruediv :: "Wire \<Rightarrow> pyval \<Rightarrow> pyval gate" where
  "Wire_rtruediv self other = bind (Wire_invert self) (\<lambda>inv. py_mul other (W inv))"

definition py_truediv :: "pyval \<Rightarrow> pyval \<Rightarrow> pyval gate" where
  "py_truediv a b = (case a of W x \<Rightarrow> Wire_truediv x b
     | _ \<Rightarrow> (case b of W y \<Rightarrow> Wire_rtruediv y a
        | _ \<Rightarrow> (case (a, b) of (I m, I n) \<Rightarrow> raise Unmodelled | _ \<Rightarrow> raise TypeError)))"

text \<open>\<open>a.invert()\<close> on a dynamically typed operand.\<close>

definition py_invert :: "pyval \<Rightarrow> pyval gate" where
  "py_invert a = (case a of W w \<Rightarrow> bind (Wire_invert w) (\<lambda>r. ret (W r))
     | _ \<Rightarrow> raise AttributeError)"

section \<open>Montgomery points and the x-only formulae (src/gates/ecsmontgomery.py)\<close>

datatype point_kind = Affine | Homogeneous

record Point =
  px :: pyval
  py :: pyval
  pz :: pyval
  kind :: point_kind

definition HomogeneousPoint :: "pyval \<Rightarrow> pyval \<Rightarrow> pyval \<Rightarrow> Point" where
  "HomogeneousPoint a b c = \<lparr>px = a, py = b, pz = c, kind = Homogeneous\<rparr>"

definition AffinePoint :: "pyval \<Rightarrow> pyval \<Rightarrow> pyval \<Rightarrow> Point" where
  "AffinePoint a b c = \<lparr>px = a, py = b, pz = c, kind = Affine\<rparr>"

definition xadd :: "Point \<Rightarrow> Point \<Rightarrow> Point \<Rightarrow> Point gate" where
  "xadd p q m =
     bind (py_add (px p) (pz p)) (\<lambda>v0.
     bind (py_sub (px q) (pz q)) (\<lambda>v1.
     bind (py_mul v1 v0) (\<lambda>v1.
     bind (py_sub (px p) (pz p)) (\<lambda>v0.
     bind (py_add (px q) (pz q)) (\<lambda>v2.
     bind (py_mul v2 v0) (\<lambda>v2.
     bind (py_add v1 v2) (\<lambda>v3.
     bind (py_mul v3 v3) (\<lambda>v3.
     bind (py_sub v1 v2) (\<lambda>v4.
     bind (py_mul v4 v4) (\<lambda>v4.
     bind (py_mul (pz m) v3) (\<lambda>xp.
     bind (py_mul (px m) v4) (\<lambda>zp.
     ret (HomogeneousPoint xp NoneVal zp)))))))))))))"

definition xdbl :: "Point \<Rightarrow> pyval \<Rightarrow> Point gate" where
  "xdbl p A =
     bind (py_add (px p) (pz p)) (\<lambda>v1.
     bind (py_mul v1 v1) (\<lambda>v1.
     bind (py_sub (px p) (pz p)) (\<lambda>v2.
     bind (py_mul v2 v2) (\<lambda>v2.
     bind (py_mul v1 v2) (\<lambda>xd.
     bind (py_sub v1 v2) (\<lambda>v1.
     bind (py_add A (I 2)) (\<lambda>a2.
     bind (py_truediv a2 (I 4)) (\<lambda>a24.
     bind (py_mul a24 v1) (\<lambda>v3.
     bind (py_add v3 v2) (\<lambda>v3.
     bind (py_mul v1 v3) (\<lambda>zd.
     ret (HomogeneousPoint xd NoneVal zd))))))))))))"

text \<open>A non-const wire of a group (a group's modulus is not zero).\<close>

definition variable_wire :: "pyval \<Rightarrow> bool" where
  "variable_wire a = (case a of W w \<Rightarrow> \<not> is_const w \<and> modulus w \<noteq> 0 | _ \<Rightarrow> False)"

text \<open>Both counters advanced by \<open>k\<close>.\<close>

definition counted :: "int \<Rightarrow> counters \<Rightarrow> counters" where
  "counted k s = s\<lparr>n_mul := n_mul s + k, n_wires := n_wires s + k\<rparr>"

section \<open>Constraint counting\<close>

lemma bind_ret [simp]: "bind (ret v) f = f v"
  by (simp add: bind_def ret_def)

lemma bind_raise [simp]: "bind (raise e) f = raise e"
  by (simp add: bind_def raise_def)

lemma bind_apply_Inr: "m s = (Inr v, s') \<Longrightarrow> bind m f s = f v s'"
  by (simp add: bind_def)

lemma bind_apply_Inl: "m s = (Inl e, s') \<Longrightarrow> bind m f s = (Inl e, s')"
  by (simp add: bind_def)

lemma Wire_mul_run:
  "modulus a \<noteq> 0 \<Longrightarrow> Wire_mul a (W b) s =
     (Inr (W (Wire_create ((val a * val b) mod modulus a) (modulus a)
               (is_const a \<and> is_const b))),
      if is_const b then s else counted 1 s)"
  by (simp add: Wire_mul_def nonconst_wire_def count_constraint_def int_of_def py_mod_def
      bind_def ret_def counted_def)

lemma Wire_mul_int_run:
  "modulus a \<noteq> 0 \<Longrightarrow> Wire_mul a (I n) s =
     (Inr (W (Wire_create ((val a * n) mod modulus a) (modulus a) (is_const a))), s)"
  by (simp add: Wire_mul_def nonconst_wire_def int_of_def py_mod_def bind_def ret_def)

lemma Wire_add_run:
  "modulus a \<noteq> 0 \<Longrightarrow> Wire_add a (W b) s =
     (Inr (W (Wire_create ((val a + val b) mod modulus a) (modulus a)
               (is_const a \<and> is_const b))), s)"
  by (simp add: Wire_add_def nonconst_wire_def int_of_def py_mod_def bind_def ret_def)

lemma Wire_add_int_run:
  "modulus a \<noteq> 0 \<Longrightarrow> Wire_add a (I n) s =
     (Inr (W (Wire_create ((val a + n) mod modulus a) (modulus a) (is_const a))), s)"
  by (simp add: Wire_add_def nonconst_wire_def int_of_def py_mod_def bind_def ret_def)

lemma Wire_create_sel [simp]:
  "val (Wire_create v m c) = v" "modulus (Wire_create v m c) = m"
  "is_const (Wire_create v m c) = c"
  by (simp_all add: Wire_create_def)

lemma Wire_neg_sel [simp]:
  "val (Wire_neg w) = modulus w - val w" "modulus (Wire_neg w) = modulus w"
  "is_const (Wire_neg w) = is_const w"
  by (simp_all add: Wire_neg_def)

lemma py_add_WW:
  "modulus a \<noteq> 0 \<Longrightarrow> py_add (W a) (W b) s =
     (Inr (W (Wire_create ((val a + val b) mod modulus a) (modulus a)
               (is_const a \<and> is_const b))), s)"
  by (simp add: py_add_def Wire_add_run)

lemma py_add_WI:
  "modulus a \<noteq> 0 \<Longrightarrow> py_add (W a) (I n) s =
     (Inr (W (Wire_create ((val a + n) mod modulus a) (modulus a) (is_const a))), s)"
  by (simp add: py_add_def Wire_add_int_run)

lemma py_add_IW:
  "modulus a \<noteq> 0 \<Longrightarrow> py_add (I n) (W a) s =
     (Inr (W (Wire_create ((val a + n) mod modulus a) (modulus a) (is_const a))), s)"
  by (simp add: py_add_def Wire_radd_def Wire_add_int_run)

lemma py_sub_WW:
  "modulus a \<noteq> 0 \<Longrightarrow> py_sub (W a) (W b) s =
     (Inr (W (Wire_create ((val a + (modulus b - val b)) mod modulus a) (modulus a)
               (is_const a \<and> is_const b))), s)"
  by (simp add: py_sub_def Wire_sub_def py_neg_def Wire_add_run)

lemma py_sub_WI:
  "modulus a \<noteq> 0 \<Longrightarrow> py_sub (W a) (I n) s =
     (Inr (W (Wire_create ((val a + - n) mod modulus a) (modulus a) (is_const a))), s)"
  by (simp add: py_sub_def Wire_sub_def py_neg_def Wire_add_int_run)

lemma py_sub_IW:
  "modulus a \<noteq> 0 \<Longrightarrow> py_sub (I n) (W a) s =
     (Inr (W (Wire_create ((modulus a - val a + n) mod modulus a) (modulus a) (is_const a))), s)"
  by (simp add: py_sub_def Wire_rsub_def py_add_IW)

lemma py_mul_WW:
  "modulus a \<noteq> 0 \<Longrightarrow> py_mul (W a) (W b) s =
     (Inr (W (Wire_create ((val a * val b) mod modulus a) (modulus a)
               (is_const a \<and> is_const b))),
      if is_const b then s else counted 1 s)"
  by (simp add: py_mul_def Wire_mul_run)

lemma py_mul_WI:
  "modulus a \<noteq> 0 \<Longrightarrow> py_mul (W a) (I n) s =
     (Inr (W (Wire_create ((val a * n) mod modulus a) (modulus a) (is_const a))), s)"
  by (simp add: py_mul_def Wire_mul_int_run)

lemma py_mul_IW:
  "modulus a \<noteq> 0 \<Longrightarrow> py_mul (I n) (W a) s =
     (Inr (W (Wire_create ((val a * n) mod modulus a) (modulus a) (is_const a))), s)"
  by (simp add: py_mul_def Wire_rmul_def Wire_mul_int_run)

subsection \<open>The modular inverse\<close>

lemma egcd_bezout:
  "egcd a b = (g, u, v) \<Longrightarrow> a * u + b * v = g \<and> \<bar>g\<bar> = gcd a b"
proof (induction a b arbitrary: g u v rule: egcd.induct)
  case (1 a b)
  show ?case
  proof (cases "b = 0")
    case True
    with "1.prems" show ?thesis by (simp add: egcd.simps [of a 0])
  next
    case False
    obtain g' u' v' where rec: "egcd b (a mod b) = (g', u', v')"
      by (cases "egcd b (a mod b)") auto
    from "1.IH" [OF False rec] have ih: "b * u' + (a mod b) * v' = g'" "\<bar>g'\<bar> = gcd b (a mod b)"
      by simp_all
    have "egcd a b = (g', v', u' - (a div b) * v')"
      using False rec by (subst egcd.simps) simp
    with "1.prems" have res: "g = g'" "u = v'" "v = u' - (a div b) * v'"
      by auto
    have "a * v' + b * (u' - (a div b) * v') = b * u' + (a - b * (a div b)) * v'"
      by (simp add: algebra_simps)
    also have "a - b * (a div b) = a mod b"
      by (simp add: minus_mult_div_eq_mod)
    finally have "a * u + b * v = g" using ih res by simp
    moreover have "\<bar>g\<bar> = gcd a b"
      using ih res by (simp add: gcd.commute [of a b] gcd_red_int [symmetric])
    ultimately show ?thesis by simp
  qed
qed

definition inv_mod :: "int \<Rightarrow> int \<Rightarrow> int" where
  "inv_mod b m = (case egcd (b mod m) m of (g, u, v) \<Rightarrow> (u * g) mod m)"

lemma pow_inv_run:
  assumes "m \<noteq> 0" "gcd b m = 1"
  shows "pow_inv b m s = (Inr (inv_mod b m), s)"
    and "(b * inv_mod b m) mod m = 1 mod m"
proof -
  obtain g u v where e: "egcd (b mod m) m = (g, u, v)"
    by (cases "egcd (b mod m) m") auto
  from egcd_bezout [OF e] have bz: "(b mod m) * u + m * v = g" and ag: "\<bar>g\<bar> = gcd (b mod m) m"
    by simp_all
  have "gcd (b mod m) m = gcd b m"
    by (metis gcd.commute gcd_red_int)
  with ag assms have g1: "\<bar>g\<bar> = 1" by simp
  then show "pow_inv b m s = (Inr (inv_mod b m), s)"
    using assms e by (simp add: pow_inv_def inv_mod_def ret_def)
  from g1 have gg: "g * g = 1"
    by (metis abs_mult_self_eq mult_1)
  have "(b * ((u * g) mod m)) mod m = ((b mod m) * u * g) mod m"
    by (metis mod_mult_left_eq mod_mult_right_eq mult.assoc)
  also have "(b mod m) * u * g = (g - m * v) * g"
  proof -
    from bz have "(b mod m) * u = g - m * v" by simp
    then show ?thesis by simp
  qed
  also have "\<dots> = 1 + m * (- v * g)"
    using gg by (simp add: algebra_simps)
  also have "(1 + m * (- v * g)) mod m = 1 mod m"
    by (metis mod_mult_self2)
  finally show "(b * inv_mod b m) mod m = 1 mod m"
    using e by (simp add: inv_mod_def)
qed

lemma gcd_4_odd: "odd (m::int) \<Longrightarrow> gcd 4 m = 1"
proof -
  assume "odd m"
  then have "coprime 2 m" by (simp add: coprime_left_2_iff_odd)
  then have "coprime (2 ^ 2) m" by (simp only: coprime_power_left_iff) simp
  then show ?thesis by (simp add: coprime_iff_gcd_eq_1)
qed

lemma py_truediv_W4:
  "odd (modulus a) \<Longrightarrow> py_truediv (W a) (I 4) s =
     (Inr (W (Wire_create ((val a * inv_mod 4 (modulus a)) mod modulus a) (modulus a)
               (is_const a))), s)"
proof -
  assume o: "odd (modulus a)"
  then have nz: "modulus a \<noteq> 0" by auto
  from pow_inv_run(1) [OF nz gcd_4_odd [OF o]]
  show ?thesis
    by (simp add: py_truediv_def Wire_truediv_def int_of_def bind_def ret_def
        Wire_mul_int_run [OF nz])
qed

lemma variable_wireE:
  assumes "variable_wire a"
  obtains w where "a = W w" "\<not> is_const w" "modulus w \<noteq> 0"
  using assms by (cases a) (auto simp: variable_wire_def)

lemma counted_counted [simp]: "counted j (counted k s) = counted (k + j) s"
  by (simp add: counted_def)

text \<open>
  C1 (as the code has it).  \<open>Wire.__mul__\<close> looks only at its right operand: the
  product of two wires advances \<open>n_mul\<close> and \<open>n_wires\<close> by one exactly when the right
  operand is non-const, whatever the flag of the left one; a plain integer on either
  side never counts; \<open>invert\<close> counts exactly when its operand is non-const.  The
  counters are advanced before the arithmetic, so this holds for every modulus.
\<close>

lemma snd_mul_WW:
  "snd (py_mul (W a) (W b) s) = (if is_const b then s else counted 1 s)"
  by (simp add: py_mul_def Wire_mul_def nonconst_wire_def count_constraint_def int_of_def
      py_mod_def bind_def ret_def raise_def counted_def)

lemma snd_mul_WI: "snd (py_mul (W a) (I n) s) = s"
  by (simp add: py_mul_def Wire_mul_def nonconst_wire_def int_of_def py_mod_def bind_def
      ret_def raise_def)

lemma snd_mul_IW: "snd (py_mul (I n) (W a) s) = s"
  by (simp add: py_mul_def Wire_rmul_def Wire_mul_def nonconst_wire_def int_of_def py_mod_def
      bind_def ret_def raise_def)

lemma snd_pow_inv: "snd (pow_inv b m s) = s"
  by (simp add: pow_inv_def ret_def raise_def split: prod.splits)

lemma snd_invert: "snd (Wire_invert a s) = (if is_const a then s else counted 1 s)"
proof -
  have tail: "snd (bind (pow_inv b m) (\<lambda>v. ret (Wire_create v m c)) t) = t" for b m c t
    using snd_pow_inv [of b m t]
    by (cases "pow_inv b m t") (auto simp: bind_def ret_def split: sum.splits)
  show ?thesis
  proof (cases "is_const a")
    case True
    then show ?thesis by (simp add: Wire_invert_def tail)
  next
    case False
    have "count_constraint s = (Inr (), counted 1 s)"
      by (simp add: count_constraint_def counted_def)
    then show ?thesis
      using False tail [of "val a" "modulus a" False "counted 1 s"]
      by (simp add: Wire_invert_def bind_apply_Inr)
  qed
qed

theorem Wire_mul_counts:
  "snd (py_mul (W a) (W b) s) = (if is_const b then s else counted 1 s)
   \<and> snd (py_mul (W a) (I n) s) = s
   \<and> snd (py_mul (I n) (W a) s) = s
   \<and> snd (Wire_invert a s) = (if is_const a then s else counted 1 s)"
  using snd_mul_WW [of a b s] snd_mul_WI [of a n s] snd_mul_IW [of n a s] snd_invert [of a s]
  by (intro conjI)

theorem Wire_mul_counts_witness:
  "snd (py_mul (W (Wire_create 4 11 True)) (W (Wire_create 3 11 False))
         \<lparr>n_mul = 0, n_wires = 0\<rparr>) = \<lparr>n_mul = 1, n_wires = 1\<rparr>
   \<and> snd (py_mul (W (Wire_create 3 11 False)) (W (Wire_create 4 11 True))
         \<lparr>n_mul = 0, n_wires = 0\<rparr>) = \<lparr>n_mul = 0, n_wires = 0\<rparr>
   \<and> snd (Wire_invert (Wire_create 3 11 False) \<lparr>n_mul = 0, n_wires = 0\<rparr>)
       = \<lparr>n_mul = 1, n_wires = 1\<rparr>"
  using Wire_mul_counts [of "Wire_create 4 11 True" "Wire_create 3 11 False"
      "\<lparr>n_mul = 0, n_wires = 0\<rparr>" 0]
    Wire_mul_counts [of "Wire_create 3 11 False" "Wire_create 4 11 True"
      "\<lparr>n_mul = 0, n_wires = 0\<rparr>" 0]
  by (simp add: counted_def)

text \<open>
  C1 as stated fails: a const wire times a non-const wire, the const one on the left,
  is counted.  With \<open>a = gen(4, is_const=True)\<close> and \<open>b = gen(3)\<close> over 11, \<open>a * b\<close>
  returns the wire 1 and leaves \<open>n_mul = n_wires = 1\<close>.
\<close>

theorem Wire_mul_const_left_counterexample:
  "is_const (Wire_create 4 11 True)
   \<and> py_mul (W (Wire_create 4 11 True)) (W (Wire_create 3 11 False))
        \<lparr>n_mul = 0, n_wires = 0\<rparr>
       = (Inr (W (Wire_create 1 11 False)), \<lparr>n_mul = 1, n_wires = 1\<rparr>)"
  by (simp add: py_mul_WW counted_def)

end
